theory Spec2Isabelle
  imports Main "HOL-Library.Word"
begin

section \<open>Package githook: the hook bridge (internal/githook/cli.go)\<close>

subsection \<open>Errors\<close>

text \<open>
  Go error values of the hook process.  \<open>io_EOF\<close> is the sentinel \<open>io.EOF\<close>;
  \<open>errors_New s\<close> is \<open>errors.New(s)\<close> (and \<open>fmt.Errorf\<close> without a \<open>%w\<close> verb, which
  also yields a plain error carrying only its text); \<open>fmt_Errorf p e\<close> is
  \<open>fmt.Errorf(p + "%w", e)\<close>, the error \<open>e\<close> wrapped behind the prefix \<open>p\<close>;
  \<open>Opaque s\<close> is an error produced outside the modelled code (the HTTP client, the
  operating system reading standard input) whose text is \<open>s\<close>.
\<close>

datatype error =
    io_EOF
  | errors_New string
  | fmt_Errorf string error
  | Opaque string

text \<open>The method \<open>Error()\<close>: the text of an error value.\<close>

fun error_text :: "error \<Rightarrow> string" where
  "error_text io_EOF = ''EOF''"
| "error_text (errors_New s) = s"
| "error_text (fmt_Errorf p e) = p @ error_text e"
| "error_text (Opaque s) = s"

subsection \<open>Data\<close>

text \<open>
  Modelled from the spec: package controller/githook, which declares
  \<open>ReferenceUpdate\<close> and \<open>ServerHookOutput\<close>, is not under src.  A reference update
  is the triple of old object id, new object id and ref name; the outcome of the
  server is an optional rejection message.  The fields bear the names by which cli.go
  reads and writes them (\<open>Error *string\<close>, \<open>None\<close> for the nil pointer).
\<close>

record ReferenceUpdate =
  Ref :: string
  Old :: string
  New :: string

record ServerHookOutput =
  Error :: "string option"

subsection \<open>handleServerHookOutput\<close>

text \<open>
  The result is a Go \<open>error\<close>: \<open>None\<close> is nil (the push is allowed), \<open>Some e\<close>
  blocks the push.  \<open>out\<close> is a pointer, \<open>None\<close> when nil.
\<close>

definition handleServerHookOutput ::
  "ServerHookOutput option \<Rightarrow> error option \<Rightarrow> error option" where
  "handleServerHookOutput out err =
     (case err of
        Some e \<Rightarrow> Some (fmt_Errorf ''an error occured when calling the server: '' e)
      | None \<Rightarrow>
          (case out of
             None \<Rightarrow> Some (errors_New ''the server returned an empty output'')
           | Some out' \<Rightarrow>
               (case Error out' of
                  Some msg \<Rightarrow> Some (errors_New msg)
                | None \<Rightarrow> None)))"

subsection \<open>Library functions used by the parser\<close>

abbreviation LF :: char where
  "LF \<equiv> CHR 0x0A"

abbreviation SP :: char where
  "SP \<equiv> CHR 0x20"

text \<open>
  \<open>strings.Split(s, sep)\<close> for a one-byte separator: the substrings between the
  separators, \<open>[s]\<close> when there is none (so the empty string splits into one empty
  field).
\<close>

fun Split :: "string \<Rightarrow> char \<Rightarrow> string list" where
  "Split [] sep = [[]]"
| "Split (c # cs) sep =
     (if c = sep then [] # Split cs sep
      else (case Split cs sep of
              x # xs \<Rightarrow> (c # x) # xs
            | [] \<Rightarrow> [[c]]))"

text \<open>
  Standard input behind a \<open>bufio.Reader\<close>: the bytes not yet consumed, and the error
  the source reports once they are exhausted (\<open>io_EOF\<close> at a regular end of stream).
  \<open>ReadString rd delim\<close> reads up to and including the first \<open>delim\<close>; when the
  bytes run out first it returns what it read together with the error.
\<close>

type_synonym reader = "string \<times> error"

fun ReadString :: "reader \<Rightarrow> char \<Rightarrow> (string \<times> error option) \<times> reader" where
  "ReadString ([], e) delim = (([], Some e), ([], e))"
| "ReadString (c # cs, e) delim =
     (if c = delim then (([c], None), (cs, e))
      else (case ReadString (cs, e) delim of
              ((line, err), rd) \<Rightarrow> ((c # line, err), rd)))"

text \<open>The verb \<open>%v\<close> on a slice of strings: the elements between brackets, space-separated.\<close>

fun join_sp :: "string list \<Rightarrow> string" where
  "join_sp [] = []"
| "join_sp [x] = x"
| "join_sp (x # y # ys) = x @ [SP] @ join_sp (y # ys)"

definition format_v :: "string list \<Rightarrow> string" where
  "format_v xs = ''['' @ join_sp xs @ '']''"

subsection \<open>getUpdatedReferencesFromStdIn\<close>

text \<open>
  The \<open>for\<close> loop of the function, with the reader and the slice \<open>updatedRefs\<close> as
  its state.  \<open>Inl\<close> is the \<open>(nil, err)\<close> return, \<open>Inr\<close> the \<open>(updatedRefs, nil)\<close> one.
\<close>

function getUpdatedReferences_loop ::
  "reader \<Rightarrow> ReferenceUpdate list \<Rightarrow> error + ReferenceUpdate list" where
  "getUpdatedReferences_loop reader updatedRefs =
     (case ReadString reader LF of
        ((line, err), reader') \<Rightarrow>
          (case err of
             Some e \<Rightarrow> (if e = io_EOF then Inr updatedRefs else Inl e)
           | None \<Rightarrow>
               if length line = 0
               then Inl (errors_New ''ref data from stdin contains empty line - not expected'')
               else
                 (let splitGitHookData = Split (take (length line - 1) line) SP in
                  if length splitGitHookData \<noteq> 3
                  then Inl (errors_New
                    (''received invalid data format or didn't receive enough parameters - ''
                      @ format_v splitGitHookData))
                  else getUpdatedReferences_loop reader'
                    (updatedRefs @
                      [\<lparr>Ref = splitGitHookData ! 2,
                        Old = splitGitHookData ! 0,
                        New = splitGitHookData ! 1\<rparr>]))))"
  by pat_completeness auto
termination
proof (relation "measure (\<lambda>(rd, acc). length (fst rd))", goal_cases)
  case 1
  show ?case by simp
next
  case (2 reader updatedRefs x reader' line err sp)
  have shorter: "length s' < length s"
    if "ReadString (s, e) LF = ((l, None), (s', e'))" for s e l s' e'
    using that
  proof (induction s arbitrary: l)
    case Nil
    then show ?case by simp
  next
    case (Cons c cs)
    then show ?case
      by (cases "c = LF") (auto split: prod.splits)
  qed
  from 2 show ?case
    by (cases reader; cases reader') (auto dest: shorter [OF sym])
qed

declare getUpdatedReferences_loop.simps [simp del]

definition getUpdatedReferencesFromStdIn :: "reader \<Rightarrow> error + ReferenceUpdate list" where
  "getUpdatedReferencesFromStdIn stdin = getUpdatedReferences_loop stdin []"

section \<open>Package authn: the token authenticator (internal/auth/authn/token.go)\<close>

subsection \<open>Errors\<close>

text \<open>
  Error values of package authn.  \<open>ErrNoAuthData\<close> is the package-level sentinel that
  Authenticate returns by name; \<open>authn_New s\<close> is \<open>errors.New(s)\<close> (and \<open>fmt.Errorf\<close>
  without \<open>%w\<close>); \<open>authn_Errorf p e\<close> is \<open>fmt.Errorf(p + "%w", e)\<close>; \<open>External s\<close>
  is an error that a store or the JWT library produced; \<open>nil_dereference\<close> is the
  run-time panic of reading through a nil pointer.
\<close>

datatype authn_error =
    ErrNoAuthData
  | authn_New string
  | authn_Errorf string authn_error
  | External string
  | nil_dereference

subsection \<open>Data\<close>

text \<open>
  Modelled from the spec: package enum, which declares the string type \<open>TokenType\<close>
  and its constants, is not under src.  The token classes are personal-access-token,
  session, OAuth2 and service-account-token, under the names by which token.go refers
  to them; claims decoded from a credential may carry any other string \<open>s\<close> as well
  (\<open>TokenTypeOther s\<close>; the zero value is \<open>TokenTypeOther []\<close>).
\<close>

datatype TokenType =
    TokenTypePAT
  | TokenTypeSession
  | TokenTypeOAuth2
  | TokenTypeSAT
  | TokenTypeOther string

text \<open>
  Modelled from the spec: the packages token, types and auth, which declare
  \<open>JWTClaims\<close>, \<open>Principal\<close>, \<open>Token\<close>, \<open>TokenMetadata\<close> and \<open>Session\<close>, are not
  under src.  The claim set names a token class, a principal id and a token id; a
  principal has a numeric identifier and a salt; a token record has a class, an
  identifier and grants; a session is the principal with the token's class, id and
  grants.  The fields bear the names by which token.go reads and writes them.  Go's
  \<open>int64\<close> is a 64-bit word.  The type of the grants is left open (\<open>'g\<close>), as are
  \<open>types.User\<close> (\<open>'u\<close>) and \<open>types.ServiceAccount\<close> (\<open>'sa\<close>) below.
\<close>

record JWTClaims =
  TokenType :: TokenType
  PrincipalID :: "64 word"
  TokenID :: "64 word"

record Principal =
  ID :: "64 word"
  Salt :: string

record 'g Token =
  Type :: TokenType
  ID :: "64 word"
  Grants :: 'g

record 'g TokenMetadata =
  TokenType :: TokenType
  TokenID :: "64 word"
  Grants :: 'g

record 'g Session =
  Principal :: Principal
  Metadata :: "'g TokenMetadata"

text \<open>
  \<open>jwt.Token\<close> after parsing: the dynamic type of its signing method (with the
  algorithm name) and the flag \<open>Valid\<close>.  The type assertion
  \<open>parsed.Method.(*jwt.SigningMethodHMAC)\<close> succeeds on the first constructor only.
\<close>

datatype SigningMethod =
    SigningMethodHMAC string
  | SigningMethodRSA string
  | SigningMethodRSAPSS string
  | SigningMethodECDSA string
  | signingMethodNone
  | nil_SigningMethod

record jwt_Token =
  Method :: SigningMethod
  Valid :: bool

fun is_SigningMethodHMAC :: "SigningMethod \<Rightarrow> bool" where
  "is_SigningMethodHMAC (SigningMethodHMAC alg) = True"
| "is_SigningMethodHMAC m = False"

text \<open>
  An \<open>http.Request\<close>: its header and its parsed form, each mapping a key to the list
  of its values.  \<open>Header_Get\<close> and \<open>FormValue\<close> return the first value of the key, and
  the empty string when there is none.
\<close>

record Request =
  Header :: "string \<rightharpoonup> string list"
  Form :: "string \<rightharpoonup> string list"

definition Header_Get :: "Request \<Rightarrow> string \<Rightarrow> string" where
  "Header_Get r key = (case Header r key of Some (v # vs) \<Rightarrow> v | _ \<Rightarrow> [])"

definition FormValue :: "Request \<Rightarrow> string \<Rightarrow> string" where
  "FormValue r key = (case Form r key of Some (v # vs) \<Rightarrow> v | _ \<Rightarrow> [])"

definition HasPrefix :: "string \<Rightarrow> string \<Rightarrow> bool" where
  "HasPrefix s pre = (length pre \<le> length s \<and> take (length pre) s = pre)"

definition TrimPrefix :: "string \<Rightarrow> string \<Rightarrow> string" where
  "TrimPrefix s pre = (if HasPrefix s pre then drop (length pre) s else s)"

subsection \<open>The authenticator and what it calls\<close>

text \<open>
  The three stores are interfaces implemented outside token.go: \<open>Find\<close> returns a
  record or an error.
\<close>

record ('u, 'sa, 'g) TokenAuthenticator =
  userStore :: "64 word \<Rightarrow> authn_error + 'u"
  saStore :: "64 word \<Rightarrow> authn_error + 'sa"
  tokenStore :: "64 word \<Rightarrow> authn_error + 'g Token"

text \<open>
  The variables of Authenticate that the key function (a closure) and the JWT library
  share with it: \<open>claims\<close> is filled in by the library through the pointer it is given,
  \<open>principal\<close> and \<open>err\<close> are assigned by the key function.
\<close>

record vars =
  claims :: JWTClaims
  principal :: "Principal option"
  err :: "authn_error option"

text \<open>
  Code that is not under src, taken as parameters.  \<open>ParseWithClaims str keyFunc\<close> is
  \<open>jwt.ParseWithClaims(str, claims, keyFunc)\<close> of the JWT library: it may write the
  claims, may call the key function (which updates the shared variables and yields
  the key or an error; token.go's key function does not look at the token it is
  given), and returns the pair \<open>(*jwt.Token, error)\<close>, either of which may be nil.
  \<open>parseBasicAuth\<close> is net/http's decoding of an Authorization header value into
  \<open>(username, password, ok)\<close>.  \<open>PrincipalFromUser\<close> and
  \<open>PrincipalFromServiceAccount\<close> are the conversions of package types.
\<close>

type_synonym Keyfunc = "vars \<Rightarrow> (authn_error + string) \<times> vars"

record ('u, 'sa) externals =
  ParseWithClaims ::
    "string \<Rightarrow> Keyfunc \<Rightarrow> vars \<Rightarrow> (jwt_Token option \<times> authn_error option) \<times> vars"
  parseBasicAuth :: "string \<Rightarrow> string \<times> string \<times> bool"
  PrincipalFromUser :: "'u \<Rightarrow> Principal"
  PrincipalFromServiceAccount :: "'sa \<Rightarrow> Principal"

text \<open>\<open>r.BasicAuth()\<close> of net/http.\<close>

definition BasicAuth :: "('u, 'sa) externals \<Rightarrow> Request \<Rightarrow> string \<times> string \<times> bool" where
  "BasicAuth X r =
     (let auth = Header_Get r ''Authorization'' in
      if auth = [] then ([], [], False) else parseBasicAuth X auth)"

subsection \<open>extractToken\<close>

definition extractToken :: "('u, 'sa) externals \<Rightarrow> Request \<Rightarrow> string" where
  "extractToken X r =
     (let bearer = Header_Get r ''Authorization'' in
      if bearer = [] then FormValue r ''access_token''
      else if HasPrefix bearer ''Basic''
      then (case BasicAuth X r of
              (username, tkn, ok) \<Rightarrow> if \<not> ok then [] else tkn)
      else
        (let bearer = TrimPrefix bearer ''Bearer '';
             bearer = TrimPrefix bearer ''IdentityService ''
         in bearer))"

subsection \<open>getPrincipal\<close>

text \<open>
  The result of getPrincipal together with the store lookups it performed, in order.
\<close>

datatype store_call =
    userStore_Find "64 word"
  | saStore_Find "64 word"

definition getPrincipal ::
  "('u, 'sa) externals \<Rightarrow> ('u, 'sa, 'g) TokenAuthenticator \<Rightarrow> JWTClaims
     \<Rightarrow> (authn_error + Principal) \<times> store_call list" where
  "getPrincipal X a claims' =
     (let fromUserStore =
        ((case userStore a (PrincipalID claims') of
            Inl e \<Rightarrow> Inl e
          | Inr user \<Rightarrow> Inr (PrincipalFromUser X user)),
         [userStore_Find (PrincipalID claims')])
      in case JWTClaims.TokenType claims' of
           TokenTypePAT \<Rightarrow> fromUserStore
         | TokenTypeSession \<Rightarrow> fromUserStore
         | TokenTypeOAuth2 \<Rightarrow> fromUserStore
         | TokenTypeSAT \<Rightarrow>
             ((case saStore a (PrincipalID claims') of
                 Inl e \<Rightarrow> Inl e
               | Inr sa \<Rightarrow> Inr (PrincipalFromServiceAccount X sa)),
              [saStore_Find (PrincipalID claims')])
         | TokenTypeOther s \<Rightarrow>
             (Inl (authn_New (''unsupported token type '' @ [CHR 0x27] @ s @ [CHR 0x27])), []))"

subsection \<open>Authenticate\<close>

text \<open>
  The key function passed to the library: it resolves the principal named by the
  claims, stores it (and the error) in the shared variables, and returns the
  principal's salt as the key.
\<close>

definition keyFunc ::
  "('u, 'sa) externals \<Rightarrow> ('u, 'sa, 'g) TokenAuthenticator \<Rightarrow> Keyfunc" where
  "keyFunc X a v =
     (case fst (getPrincipal X a (claims v)) of
        Inl e \<Rightarrow>
          (Inl (authn_Errorf ''failed to get principal for token: '' e),
           v\<lparr>principal := None, err := Some e\<rparr>)
      | Inr p \<Rightarrow> (Inr (Salt p), v\<lparr>principal := Some p, err := None\<rparr>))"

text \<open>
  The variables as Authenticate declares them before the call of the library:
  \<open>var principal *types.Principal\<close>, \<open>var err error\<close> (both nil) and
  \<open>claims := &token.JWTClaims{}\<close> (every field at its zero value).
\<close>

definition declared_vars :: vars where
  "declared_vars =
     \<lparr>claims = \<lparr>JWTClaims.TokenType = TokenTypeOther [], PrincipalID = 0,
                 JWTClaims.TokenID = 0\<rparr>,
      principal = None, err = None\<rparr>"

text \<open>
  \<open>Inl\<close> is the \<open>(nil, err)\<close> return (or the panic), \<open>Inr\<close> the \<open>(session, nil)\<close> one.
  When the library returns a non-nil error the token it returned with it is ignored.
\<close>

definition Authenticate ::
  "('u, 'sa) externals \<Rightarrow> ('u, 'sa, 'g) TokenAuthenticator \<Rightarrow> Request
     \<Rightarrow> authn_error + 'g Session" where
  "Authenticate X a r =
     (let str = extractToken X r in
      if length str = 0 then Inl ErrNoAuthData
      else
        (case ParseWithClaims X str (keyFunc X a) declared_vars of
           ((parsed, perr), v) \<Rightarrow>
             (case perr of
                Some e \<Rightarrow> Inl e
              | None \<Rightarrow>
                  (case parsed of
                     None \<Rightarrow> Inl nil_dereference
                   | Some tok \<Rightarrow>
                       if \<not> Valid tok then Inl (authn_New ''invalid token'')
                       else if \<not> is_SigningMethodHMAC (Method tok)
                       then Inl (authn_New ''invalid token'')
                       else
                         (case tokenStore a (JWTClaims.TokenID (claims v)) of
                            Inl e \<Rightarrow> Inl (authn_Errorf ''token wasn't found: '' e)
                          | Inr tkn \<Rightarrow>
                              (case principal v of
                                 None \<Rightarrow> Inl nil_dereference
                               | Some p \<Rightarrow>
                                   Inr \<lparr>Principal = p,
                                        Metadata =
                                          \<lparr>TokenType = Type tkn,
                                           TokenID = Token.ID tkn,
                                           Grants = Token.Grants tkn\<rparr>\<rparr>))))))"

subsection \<open>A concrete authenticator\<close>

text \<open>
  Instances on which the theorems below are exercised.  The stand-in for the JWT
  library decodes every credential to the claims \<open>c\<close> and the signing method \<open>m\<close>,
  asks the key function for the key, and accepts the signature exactly when the
  credential is the key itself; like the library, it returns the token also when it
  returns an error.  Users and service accounts are principals already; the stores
  hold the user 1 and the token 7.
\<close>

definition demo_ParseWithClaims ::
  "SigningMethod \<Rightarrow> JWTClaims \<Rightarrow> string \<Rightarrow> Keyfunc \<Rightarrow> vars
     \<Rightarrow> (jwt_Token option \<times> authn_error option) \<times> vars" where
  "demo_ParseWithClaims m c str kf v =
     (case kf (v\<lparr>claims := c\<rparr>) of
        (Inl e, v') \<Rightarrow> ((Some \<lparr>Method = m, Valid = False\<rparr>, Some e), v')
      | (Inr key, v') \<Rightarrow>
          if str = key then ((Some \<lparr>Method = m, Valid = True\<rparr>, None), v')
          else ((Some \<lparr>Method = m, Valid = False\<rparr>,
                 Some (External ''signature is invalid'')), v'))"

definition demo_externals ::
  "SigningMethod \<Rightarrow> JWTClaims \<Rightarrow> (Principal, Principal) externals" where
  "demo_externals m c =
     \<lparr>ParseWithClaims = demo_ParseWithClaims m c,
      parseBasicAuth = (\<lambda>auth. ([], [], False)),
      PrincipalFromUser = (\<lambda>u. u),
      PrincipalFromServiceAccount = (\<lambda>sa. sa)\<rparr>"

definition demo_authenticator :: "(Principal, Principal, nat) TokenAuthenticator" where
  "demo_authenticator =
     \<lparr>userStore = (\<lambda>i. if i = 1 then Inr \<lparr>Principal.ID = 1, Salt = ''s3cret''\<rparr>
                         else Inl (External ''resource not found'')),
      saStore = (\<lambda>i. if i = 2 then Inr \<lparr>Principal.ID = 2, Salt = ''robot''\<rparr>
                       else Inl (External ''resource not found'')),
      tokenStore = (\<lambda>i. if i = 7 then Inr \<lparr>Type = TokenTypePAT, Token.ID = 7, Token.Grants = 5\<rparr>
                          else Inl (External ''resource not found''))\<rparr>"

definition demo_request :: "string \<Rightarrow> Request" where
  "demo_request auth = \<lparr>Header = [''Authorization'' \<mapsto> [auth]], Form = Map.empty\<rparr>"

definition demo_claims :: "TokenType \<Rightarrow> 64 word \<Rightarrow> 64 word \<Rightarrow> JWTClaims" where
  "demo_claims ty pid tid =
     \<lparr>JWTClaims.TokenType = ty, PrincipalID = pid, JWTClaims.TokenID = tid\<rparr>"

section \<open>Notions used to state the properties of the parser\<close>

text \<open>
  The LF-terminated lines of a stream, without their line feeds: every field of
  the split at LF but the last, which is what follows the final LF.
\<close>

definition terminated_lines :: "string \<Rightarrow> string list" where
  "terminated_lines s = butlast (Split s LF)"

text \<open>
  The lines of a stream in the wider sense: the LF-terminated lines, followed by the
  unterminated final line when the stream does not end in LF.
\<close>

definition stream_lines :: "string \<Rightarrow> string list" where
  "stream_lines s =
     terminated_lines s @ (case Split s LF of [] \<Rightarrow> [] | x # xs \<Rightarrow>
        (if last (x # xs) = [] then [] else [last (x # xs)]))"

text \<open>A line is malformed when it does not split into exactly three fields at spaces.\<close>

definition malformed :: "string \<Rightarrow> bool" where
  "malformed l = (length (Split l SP) \<noteq> 3)"

text \<open>The update that the loop appends for a line, and the error it returns for one.\<close>

definition update_of_line :: "string \<Rightarrow> ReferenceUpdate" where
  "update_of_line l =
     (let f = Split l SP in \<lparr>Ref = f ! 2, Old = f ! 0, New = f ! 1\<rparr>)"

definition format_error :: "string \<Rightarrow> error" where
  "format_error l = errors_New
     (''received invalid data format or didn't receive enough parameters - ''
        @ format_v (Split l SP))"

section \<open>Lemmas about the parser\<close>

lemma Split_not_Nil: "Split s sep \<noteq> []"
  by (induction s) (auto split: list.splits)

lemma Split_no_sep: "sep \<notin> set t \<Longrightarrow> Split t sep = [t]"
  by (induction t) auto

lemma Split_sep: "sep \<notin> set l \<Longrightarrow> Split (l @ sep # rest) sep = l # Split rest sep"
  by (induction l) auto

lemma ReadString_no_delim:
  "delim \<notin> set t \<Longrightarrow> ReadString (t, e) delim = ((t, Some e), ([], e))"
  by (induction t) auto

lemma ReadString_delim:
  "delim \<notin> set l \<Longrightarrow>
   ReadString (l @ delim # rest, e) delim = ((l @ [delim], None), (rest, e))"
  by (induction l) auto

lemma terminated_lines_no_LF: "LF \<notin> set t \<Longrightarrow> terminated_lines t = []"
  by (simp add: terminated_lines_def Split_no_sep)

lemma terminated_lines_LF:
  "LF \<notin> set l \<Longrightarrow> terminated_lines (l @ LF # rest) = l # terminated_lines rest"
  by (simp add: terminated_lines_def Split_sep Split_not_Nil)

text \<open>One round of the loop, when the bytes run out before a line feed and when they do not.\<close>

lemma loop_no_LF:
  "LF \<notin> set t \<Longrightarrow>
   getUpdatedReferences_loop (t, e) acc = (if e = io_EOF then Inr acc else Inl e)"
  by (subst getUpdatedReferences_loop.simps) (simp add: ReadString_no_delim)

lemma loop_LF:
  "LF \<notin> set l \<Longrightarrow>
   getUpdatedReferences_loop (l @ LF # rest, e) acc =
     (if malformed l then Inl (format_error l)
      else getUpdatedReferences_loop (rest, e) (acc @ [update_of_line l]))"
  by (subst getUpdatedReferences_loop.simps)
     (simp add: ReadString_delim malformed_def format_error_def update_of_line_def Let_def)

text \<open>
  What the loop computes: the format error of the first malformed LF-terminated line
  when there is one; otherwise the updates of the LF-terminated lines, in order, when
  the stream ends regularly, and the read error when it does not.
\<close>

lemma loop_characterisation:
  "getUpdatedReferences_loop (s, e) acc =
     (case find malformed (terminated_lines s) of
        Some l \<Rightarrow> Inl (format_error l)
      | None \<Rightarrow>
          if e = io_EOF then Inr (acc @ map update_of_line (terminated_lines s))
          else Inl e)"
proof (induction s arbitrary: acc rule: length_induct)
  case (1 s)
  show ?case
  proof (cases "LF \<in> set s")
    case False
    then show ?thesis
      by (simp add: loop_no_LF terminated_lines_no_LF)
  next
    case True
    then obtain l rest where s: "s = l @ LF # rest" and l: "LF \<notin> set l"
      by (meson split_list_first)
    have "length rest < length s"
      using s by simp
    with 1 have IH: "getUpdatedReferences_loop (rest, e) acc' =
       (case find malformed (terminated_lines rest) of
          Some l \<Rightarrow> Inl (format_error l)
        | None \<Rightarrow>
            if e = io_EOF then Inr (acc' @ map update_of_line (terminated_lines rest))
            else Inl e)" for acc'
      by blast
    show ?thesis
      unfolding s
      by (simp add: loop_LF [OF l] terminated_lines_LF [OF l] IH split: option.splits)
  qed
qed

lemma parse_characterisation:
  "getUpdatedReferencesFromStdIn (s, e) =
     (case find malformed (terminated_lines s) of
        Some l \<Rightarrow> Inl (format_error l)
      | None \<Rightarrow>
          if e = io_EOF then Inr (map update_of_line (terminated_lines s)) else Inl e)"
  by (simp add: getUpdatedReferencesFromStdIn_def loop_characterisation split: option.splits)

lemma terminated_lines_append_no_LF:
  "LF \<notin> set t \<Longrightarrow> terminated_lines (s @ t) = terminated_lines s"
  unfolding terminated_lines_def
proof (induction s)
  case Nil
  then show ?case
    by (simp add: Split_no_sep)
next
  case (Cons c s)
  then show ?case
    using Split_not_Nil [of "s @ t" LF] Split_not_Nil [of s LF]
    by (auto split: list.splits)
qed

section \<open>The outcome interpreter\<close>

text \<open>
  C5.  Whenever the transport error is non-nil, handleServerHookOutput returns a
  non-nil error that wraps it, so that its text ends with the text of the underlying
  error; when the error is nil and the response object is nil it returns the error
  "the server returned an empty output".  Neither case yields nil.
\<close>

theorem handleServerHookOutput_never_allows_ambiguous:
  "handleServerHookOutput out (Some e)
     = Some (fmt_Errorf ''an error occured when calling the server: '' e)
   \<and> (\<exists>r. handleServerHookOutput out (Some e) = Some r
          \<and> error_text r = ''an error occured when calling the server: '' @ error_text e)
   \<and> handleServerHookOutput None None
       = Some (errors_New ''the server returned an empty output'')
   \<and> handleServerHookOutput out (Some e) \<noteq> None
   \<and> handleServerHookOutput None None \<noteq> None"
  by (simp add: handleServerHookOutput_def)

text \<open>
  C6.  A response received without transport error: with a rejection message the
  result is the non-nil error whose text is exactly that message; without one the
  result is nil.  The scenario of the specification: the message
  "branch main is protected" blocks the push with exactly that text.
\<close>

theorem handleServerHookOutput_verdict:
  "handleServerHookOutput (Some \<lparr>Error = Some msg\<rparr>) None = Some (errors_New msg)
   \<and> error_text (errors_New msg) = msg
   \<and> handleServerHookOutput (Some \<lparr>Error = None\<rparr>) None = None
   \<and> handleServerHookOutput (Some \<lparr>Error = Some ''branch main is protected''\<rparr>) None
       = Some (errors_New ''branch main is protected'')"
  by (simp add: handleServerHookOutput_def)

section \<open>The line protocol parser\<close>

text \<open>
  C8.  The stream "aaa bbb refs/heads/main LF ccc ddd refs/heads/dev LF" parses to
  exactly the two updates (aaa, bbb, refs/heads/main) and (ccc, ddd, refs/heads/dev),
  in that order; and in general every successful parse returns the updates of the
  LF-terminated lines in the order of the lines in the stream.
\<close>

theorem getUpdatedReferencesFromStdIn_order:
  "getUpdatedReferencesFromStdIn
     (''aaa bbb refs/heads/main'' @ [LF] @ ''ccc ddd refs/heads/dev'' @ [LF], io_EOF)
     = Inr [\<lparr>Ref = ''refs/heads/main'', Old = ''aaa'', New = ''bbb''\<rparr>,
            \<lparr>Ref = ''refs/heads/dev'', Old = ''ccc'', New = ''ddd''\<rparr>]
   \<and> (\<forall>s e us. getUpdatedReferencesFromStdIn (s, e) = Inr us
         \<longrightarrow> us = map update_of_line (terminated_lines s))"
proof
  show "getUpdatedReferencesFromStdIn
     (''aaa bbb refs/heads/main'' @ [LF] @ ''ccc ddd refs/heads/dev'' @ [LF], io_EOF)
     = Inr [\<lparr>Ref = ''refs/heads/main'', Old = ''aaa'', New = ''bbb''\<rparr>,
            \<lparr>Ref = ''refs/heads/dev'', Old = ''ccc'', New = ''ddd''\<rparr>]"
    by (simp add: parse_characterisation terminated_lines_def malformed_def
        update_of_line_def)
next
  show "\<forall>s e us. getUpdatedReferencesFromStdIn (s, e) = Inr us
         \<longrightarrow> us = map update_of_line (terminated_lines s)"
    by (auto simp: parse_characterisation split: option.splits if_splits)
qed

theorem getUpdatedReferencesFromStdIn_order_witness:
  "getUpdatedReferencesFromStdIn (''a b c'' @ [LF] @ ''d e f'' @ [LF], io_EOF)
     = Inr [\<lparr>Ref = ''c'', Old = ''a'', New = ''b''\<rparr>, \<lparr>Ref = ''f'', Old = ''d'', New = ''e''\<rparr>]
   \<and> [\<lparr>Ref = ''c'', Old = ''a'', New = ''b''\<rparr>, \<lparr>Ref = ''f'', Old = ''d'', New = ''e''\<rparr>]
     = map update_of_line (terminated_lines (''a b c'' @ [LF] @ ''d e f'' @ [LF]))"
proof -
  have run: "getUpdatedReferencesFromStdIn (''a b c'' @ [LF] @ ''d e f'' @ [LF], io_EOF)
     = Inr [\<lparr>Ref = ''c'', Old = ''a'', New = ''b''\<rparr>, \<lparr>Ref = ''f'', Old = ''d'', New = ''e''\<rparr>]"
    by (simp add: parse_characterisation terminated_lines_def malformed_def
        update_of_line_def)
  with getUpdatedReferencesFromStdIn_order show ?thesis
    by blast
qed

text \<open>
  C10.  Bytes after the last line feed are discarded: appending to a stream any bytes
  that contain no LF changes neither its LF-terminated lines nor the result of the
  parse, whatever the bytes are; so they never add an update and never make the parse
  fail.  When every LF-terminated line is well-formed and the stream ends regularly,
  the result is the updates of the LF-terminated lines alone.
\<close>

theorem getUpdatedReferencesFromStdIn_drops_unterminated:
  assumes "LF \<notin> set t"
  shows "getUpdatedReferencesFromStdIn (s @ t, e) = getUpdatedReferencesFromStdIn (s, e)
    \<and> terminated_lines (s @ t) = terminated_lines s
    \<and> (find malformed (terminated_lines s) = None \<longrightarrow>
         getUpdatedReferencesFromStdIn (s @ t, io_EOF)
           = Inr (map update_of_line (terminated_lines s)))"
  using assms
  by (simp add: parse_characterisation terminated_lines_append_no_LF split: option.splits)

theorem getUpdatedReferencesFromStdIn_drops_unterminated_witness:
  "LF \<notin> set ''ccc ddd''
   \<and> getUpdatedReferencesFromStdIn (''aaa bbb refs/heads/main'' @ [LF] @ ''ccc ddd'', io_EOF)
       = Inr [\<lparr>Ref = ''refs/heads/main'', Old = ''aaa'', New = ''bbb''\<rparr>]
   \<and> getUpdatedReferencesFromStdIn (''aaa bbb refs/heads/main'' @ [LF], io_EOF)
       = Inr [\<lparr>Ref = ''refs/heads/main'', Old = ''aaa'', New = ''bbb''\<rparr>]"
proof -
  have no_LF: "LF \<notin> set ''ccc ddd''"
    by simp
  have run: "getUpdatedReferencesFromStdIn (''aaa bbb refs/heads/main'' @ [LF], io_EOF)
       = Inr [\<lparr>Ref = ''refs/heads/main'', Old = ''aaa'', New = ''bbb''\<rparr>]"
    by (simp add: parse_characterisation terminated_lines_def malformed_def
        update_of_line_def)
  from getUpdatedReferencesFromStdIn_drops_unterminated
    [OF no_LF, of "''aaa bbb refs/heads/main'' @ [LF]" io_EOF]
  have "getUpdatedReferencesFromStdIn
          ((''aaa bbb refs/heads/main'' @ [LF]) @ ''ccc ddd'', io_EOF)
        = getUpdatedReferencesFromStdIn (''aaa bbb refs/heads/main'' @ [LF], io_EOF)"
    by blast
  with no_LF run show ?thesis
    by simp
qed

text \<open>
  C4, as stated, fails: the stream "aaa bbb refs/heads/main LF ccc" has the line
  "ccc", which does not split into three fields, yet the parse succeeds and returns
  the update of the well-formed first line.  The final line is not terminated by LF,
  and the loop leaves it at end of file without looking at it.
\<close>

theorem getUpdatedReferencesFromStdIn_unterminated_counterexample:
  "stream_lines (''aaa bbb refs/heads/main'' @ [LF] @ ''ccc'')
     = [''aaa bbb refs/heads/main'', ''ccc'']
   \<and> length (Split ''ccc'' SP) \<noteq> 3
   \<and> getUpdatedReferencesFromStdIn (''aaa bbb refs/heads/main'' @ [LF] @ ''ccc'', io_EOF)
       = Inr [\<lparr>Ref = ''refs/heads/main'', Old = ''aaa'', New = ''bbb''\<rparr>]"
  by (simp add: parse_characterisation stream_lines_def terminated_lines_def
      malformed_def update_of_line_def)

text \<open>
  C4, amended.  For every stream with at least one LF-terminated line that does not
  split into exactly three space-separated fields, however the stream ends, the parse
  fails with the format error of such a line (the first one) and returns no sequence.
\<close>

theorem getUpdatedReferencesFromStdIn_malformed_line_fails:
  assumes "l \<in> set (terminated_lines s)" and "malformed l"
  shows "(\<exists>l'. l' \<in> set (terminated_lines s) \<and> malformed l'
            \<and> find malformed (terminated_lines s) = Some l'
            \<and> getUpdatedReferencesFromStdIn (s, e) = Inl (format_error l'))
         \<and> (\<forall>us. getUpdatedReferencesFromStdIn (s, e) \<noteq> Inr us)"
proof -
  from assms have "find malformed (terminated_lines s) \<noteq> None"
    by (auto simp: find_None_iff)
  then obtain l' where found: "find malformed (terminated_lines s) = Some l'"
    by auto
  then have "l' \<in> set (terminated_lines s)" and "malformed l'"
    by (auto simp: find_Some_iff)
  moreover have "getUpdatedReferencesFromStdIn (s, e) = Inl (format_error l')"
    using found by (simp add: parse_characterisation)
  ultimately show ?thesis
    using found by auto
qed

theorem getUpdatedReferencesFromStdIn_malformed_line_fails_witness:
  "''ccc'' \<in> set (terminated_lines (''aaa bbb refs/heads/main'' @ [LF] @ ''ccc'' @ [LF]))
   \<and> malformed ''ccc''
   \<and> (\<forall>us. getUpdatedReferencesFromStdIn
              (''aaa bbb refs/heads/main'' @ [LF] @ ''ccc'' @ [LF], io_EOF) \<noteq> Inr us)"
proof -
  have mem: "''ccc'' \<in> set (terminated_lines
      (''aaa bbb refs/heads/main'' @ [LF] @ ''ccc'' @ [LF]))"
    by (simp add: terminated_lines_def)
  have bad: "malformed ''ccc''"
    by (simp add: malformed_def)
  from getUpdatedReferencesFromStdIn_malformed_line_fails [OF mem bad, of io_EOF]
  show ?thesis
    using mem bad by blast
qed

section \<open>The token authenticator\<close>

text \<open>The concrete authenticator at the credential "Bearer s3cret".\<close>

lemma demo_extractToken:
  "extractToken (demo_externals m c) (demo_request ''Bearer s3cret'') = ''s3cret''"
  by (simp add: extractToken_def Header_Get_def demo_request_def HasPrefix_def
      TrimPrefix_def)

lemma demo_parse:
  "ParseWithClaims (demo_externals m (demo_claims TokenTypePAT 1 tid)) ''s3cret''
     (keyFunc (demo_externals m (demo_claims TokenTypePAT 1 tid)) demo_authenticator)
     declared_vars
   = ((Some \<lparr>Method = m, Valid = True\<rparr>, None),
      \<lparr>claims = demo_claims TokenTypePAT 1 tid,
       principal = Some \<lparr>Principal.ID = 1, Salt = ''s3cret''\<rparr>, err = None\<rparr>)"
  by (simp add: demo_externals_def demo_ParseWithClaims_def keyFunc_def getPrincipal_def
      demo_claims_def demo_authenticator_def declared_vars_def)

text \<open>
  C7.  When the request has no Authorization header value and no access_token form
  value, no credential is extracted and Authenticate fails with ErrNoAuthData, the
  sentinel of its own, and returns no session.
\<close>

theorem Authenticate_no_credential:
  assumes "Header_Get r ''Authorization'' = []" and "FormValue r ''access_token'' = []"
  shows "extractToken X r = [] \<and> Authenticate X a r = Inl ErrNoAuthData"
  using assms by (simp add: Authenticate_def extractToken_def)

theorem Authenticate_no_credential_witness:
  "Header_Get \<lparr>Header = Map.empty, Form = Map.empty\<rparr> ''Authorization'' = []
   \<and> FormValue \<lparr>Header = Map.empty, Form = Map.empty\<rparr> ''access_token'' = []
   \<and> Authenticate (demo_externals (SigningMethodHMAC ''HS256'') (demo_claims TokenTypePAT 1 7))
        demo_authenticator \<lparr>Header = Map.empty, Form = Map.empty\<rparr> = Inl ErrNoAuthData"
proof -
  have h: "Header_Get \<lparr>Header = Map.empty, Form = Map.empty\<rparr> ''Authorization'' = []"
    by (simp add: Header_Get_def)
  have f: "FormValue \<lparr>Header = Map.empty, Form = Map.empty\<rparr> ''access_token'' = []"
    by (simp add: FormValue_def)
  from Authenticate_no_credential [OF h f] show ?thesis
    using h f by blast
qed

text \<open>
  C9.  When the Authorization header begins with "Basic" and the request's BasicAuth
  reports that the value does not decode to credentials, the extracted credential is
  empty and Authenticate fails with ErrNoAuthData, not with the invalid-token error.
\<close>

theorem Authenticate_undecodable_Basic:
  assumes "HasPrefix (Header_Get r ''Authorization'') ''Basic''"
    and "BasicAuth X r = (username, password, False)"
  shows "extractToken X r = [] \<and> Authenticate X a r = Inl ErrNoAuthData
         \<and> Authenticate X a r \<noteq> Inl (authn_New ''invalid token'')"
  using assms by (auto simp: Authenticate_def extractToken_def HasPrefix_def Let_def)

theorem Authenticate_undecodable_Basic_witness:
  "HasPrefix (Header_Get (demo_request ''Basic !!!'') ''Authorization'') ''Basic''
   \<and> BasicAuth (demo_externals (SigningMethodHMAC ''HS256'') (demo_claims TokenTypePAT 1 7))
        (demo_request ''Basic !!!'') = ([], [], False)
   \<and> Authenticate (demo_externals (SigningMethodHMAC ''HS256'') (demo_claims TokenTypePAT 1 7))
        demo_authenticator (demo_request ''Basic !!!'') = Inl ErrNoAuthData"
proof -
  have p: "HasPrefix (Header_Get (demo_request ''Basic !!!'') ''Authorization'') ''Basic''"
    by (simp add: HasPrefix_def Header_Get_def demo_request_def)
  have b: "BasicAuth (demo_externals (SigningMethodHMAC ''HS256'') (demo_claims TokenTypePAT 1 7))
        (demo_request ''Basic !!!'') = ([], [], False)"
    by (simp add: BasicAuth_def Header_Get_def demo_request_def demo_externals_def)
  from Authenticate_undecodable_Basic [OF p b] show ?thesis
    using p b by blast
qed

text \<open>
  C3.  getPrincipal dispatches on the token type of the claims: for the types PAT,
  session and OAuth2 the principal (or the error) comes from the user store, with that
  one lookup; for the type SAT from the service-account store, with that one lookup;
  for every other type the result is the unsupported-token-type error and no store
  lookup is performed.
\<close>

theorem getPrincipal_dispatch:
  "(JWTClaims.TokenType c \<in> {TokenTypePAT, TokenTypeSession, TokenTypeOAuth2} \<longrightarrow>
      getPrincipal X a c =
        (map_sum id (PrincipalFromUser X) (userStore a (PrincipalID c)),
         [userStore_Find (PrincipalID c)]))
   \<and> (JWTClaims.TokenType c = TokenTypeSAT \<longrightarrow>
      getPrincipal X a c =
        (map_sum id (PrincipalFromServiceAccount X) (saStore a (PrincipalID c)),
         [saStore_Find (PrincipalID c)]))
   \<and> (\<forall>s. JWTClaims.TokenType c = TokenTypeOther s \<longrightarrow>
      getPrincipal X a c =
        (Inl (authn_New (''unsupported token type '' @ [CHR 0x27] @ s @ [CHR 0x27])), []))"
  by (auto simp: getPrincipal_def Let_def split: sum.splits)

theorem getPrincipal_dispatch_witness:
  "getPrincipal (demo_externals (SigningMethodHMAC ''HS256'') (demo_claims TokenTypePAT 1 7))
     demo_authenticator (demo_claims TokenTypeSession 1 7)
     = (Inr \<lparr>Principal.ID = 1, Salt = ''s3cret''\<rparr>, [userStore_Find 1])
   \<and> getPrincipal (demo_externals (SigningMethodHMAC ''HS256'') (demo_claims TokenTypePAT 1 7))
     demo_authenticator (demo_claims TokenTypeSAT 2 7)
     = (Inr \<lparr>Principal.ID = 2, Salt = ''robot''\<rparr>, [saStore_Find 2])
   \<and> getPrincipal (demo_externals (SigningMethodHMAC ''HS256'') (demo_claims TokenTypePAT 1 7))
     demo_authenticator (demo_claims (TokenTypeOther ''admin'') 1 7)
     = (Inl (authn_New (''unsupported token type '' @ [CHR 0x27] @ ''admin'' @ [CHR 0x27])), [])"
  using
    getPrincipal_dispatch [of "demo_claims TokenTypeSession 1 7"
      "demo_externals (SigningMethodHMAC ''HS256'') (demo_claims TokenTypePAT 1 7)"
      demo_authenticator]
    getPrincipal_dispatch [of "demo_claims TokenTypeSAT 2 7"
      "demo_externals (SigningMethodHMAC ''HS256'') (demo_claims TokenTypePAT 1 7)"
      demo_authenticator]
    getPrincipal_dispatch [of "demo_claims (TokenTypeOther ''admin'') 1 7"
      "demo_externals (SigningMethodHMAC ''HS256'') (demo_claims TokenTypePAT 1 7)"
      demo_authenticator]
  by (simp add: demo_claims_def demo_externals_def demo_authenticator_def)

text \<open>
  C1.  When the token that the library returns has a signing method that is not an
  HMAC method, Authenticate never returns a session; and once parsing has returned
  without error (the credential being non-empty), Authenticate fails with the generic
  error "invalid token".
\<close>

theorem Authenticate_rejects_non_HMAC:
  assumes "ParseWithClaims X (extractToken X r) (keyFunc X a) declared_vars
             = ((Some tok, perr), v)"
    and "\<not> is_SigningMethodHMAC (Method tok)"
  shows "(\<forall>s. Authenticate X a r \<noteq> Inr s)
    \<and> (extractToken X r \<noteq> [] \<and> perr = None \<longrightarrow>
         Authenticate X a r = Inl (authn_New ''invalid token''))"
  using assms by (auto simp: Authenticate_def Let_def split: option.splits)

theorem Authenticate_rejects_non_HMAC_witness:
  "\<not> is_SigningMethodHMAC (SigningMethodRSA ''RS256'')
   \<and> extractToken (demo_externals (SigningMethodRSA ''RS256'') (demo_claims TokenTypePAT 1 7))
        (demo_request ''Bearer s3cret'') = ''s3cret''
   \<and> Authenticate (demo_externals (SigningMethodRSA ''RS256'') (demo_claims TokenTypePAT 1 7))
        demo_authenticator (demo_request ''Bearer s3cret'')
       = Inl (authn_New ''invalid token'')"
proof -
  let ?X = "demo_externals (SigningMethodRSA ''RS256'') (demo_claims TokenTypePAT 1 7)"
  let ?r = "demo_request ''Bearer s3cret''"
  have str: "extractToken ?X ?r = ''s3cret''"
    by (rule demo_extractToken)
  have parse: "ParseWithClaims ?X (extractToken ?X ?r) (keyFunc ?X demo_authenticator)
      declared_vars
    = ((Some \<lparr>Method = SigningMethodRSA ''RS256'', Valid = True\<rparr>, None),
       \<lparr>claims = demo_claims TokenTypePAT 1 7,
        principal = Some \<lparr>Principal.ID = 1, Salt = ''s3cret''\<rparr>, err = None\<rparr>)"
    unfolding str by (rule demo_parse)
  have rsa: "\<not> is_SigningMethodHMAC
      (Method \<lparr>Method = SigningMethodRSA ''RS256'', Valid = True\<rparr>)"
    by simp
  from Authenticate_rejects_non_HMAC [OF parse rsa] show ?thesis
    using str by simp
qed

text \<open>
  C2.  For a credential that parses without error to a valid token with an HMAC
  method, Authenticate looks the token id of the claims up in the token store: when
  the lookup fails, Authenticate fails with that error wrapped ("token wasn't found");
  a session is returned only when the lookup finds a record, and then the metadata of
  the session (type, id, grants) is that of the record found.
\<close>

theorem Authenticate_token_lookup:
  assumes "extractToken X r \<noteq> []"
    and "ParseWithClaims X (extractToken X r) (keyFunc X a) declared_vars
           = ((Some tok, None), v)"
    and "Valid tok" and "is_SigningMethodHMAC (Method tok)"
  shows "(\<forall>e. tokenStore a (JWTClaims.TokenID (claims v)) = Inl e \<longrightarrow>
            Authenticate X a r = Inl (authn_Errorf ''token wasn't found: '' e))
    \<and> (\<forall>s. Authenticate X a r = Inr s \<longrightarrow>
          (\<exists>tkn. tokenStore a (JWTClaims.TokenID (claims v)) = Inr tkn
             \<and> Metadata s = \<lparr>TokenType = Type tkn, TokenID = Token.ID tkn,
                              Grants = Token.Grants tkn\<rparr>))
    \<and> (\<forall>tkn p. tokenStore a (JWTClaims.TokenID (claims v)) = Inr tkn
                 \<and> principal v = Some p \<longrightarrow>
          Authenticate X a r =
            Inr \<lparr>Principal = p,
                 Metadata = \<lparr>TokenType = Type tkn, TokenID = Token.ID tkn,
                             Grants = Token.Grants tkn\<rparr>\<rparr>)"
  using assms by (auto simp: Authenticate_def Let_def split: option.splits sum.splits)

theorem Authenticate_token_lookup_witness:
  "Authenticate (demo_externals (SigningMethodHMAC ''HS256'') (demo_claims TokenTypePAT 1 7))
     demo_authenticator (demo_request ''Bearer s3cret'')
     = Inr \<lparr>Principal = \<lparr>Principal.ID = 1, Salt = ''s3cret''\<rparr>,
            Metadata = \<lparr>TokenType = TokenTypePAT, TokenID = 7, Grants = 5\<rparr>\<rparr>
   \<and> Authenticate (demo_externals (SigningMethodHMAC ''HS256'') (demo_claims TokenTypePAT 1 8))
     demo_authenticator (demo_request ''Bearer s3cret'')
     = Inl (authn_Errorf ''token wasn't found: '' (External ''resource not found''))"
proof -
  let ?X = "\<lambda>tid. demo_externals (SigningMethodHMAC ''HS256'') (demo_claims TokenTypePAT 1 tid)"
  let ?r = "demo_request ''Bearer s3cret''"
  let ?tok = "\<lparr>Method = SigningMethodHMAC ''HS256'', Valid = True\<rparr>"
  have str: "extractToken (?X tid) ?r = ''s3cret''" for tid
    by (rule demo_extractToken)
  then have nonempty: "extractToken (?X tid) ?r \<noteq> []" for tid
    by simp
  have parse: "ParseWithClaims (?X tid) (extractToken (?X tid) ?r)
      (keyFunc (?X tid) demo_authenticator) declared_vars
    = ((Some ?tok, None),
       \<lparr>claims = demo_claims TokenTypePAT 1 tid,
        principal = Some \<lparr>Principal.ID = 1, Salt = ''s3cret''\<rparr>, err = None\<rparr>)" for tid
    unfolding str by (rule demo_parse)
  have valid: "Valid ?tok" and hmac: "is_SigningMethodHMAC (Method ?tok)"
    by simp_all
  from Authenticate_token_lookup [OF nonempty parse valid hmac, of 7]
       Authenticate_token_lookup [OF nonempty parse valid hmac, of 8]
  show ?thesis
    by (simp add: demo_claims_def demo_authenticator_def)
qed

end
